theory Spec2Isabelle
  imports Complex_Main
begin

section \<open>Values and errors\<close>

text \<open>
  The exceptions the modelled functions can raise.  \<open>KeyError\<close> carries the key that was
  looked up, as Python's does.
\<close>

datatype error = KeyError string | IndexError | ValueError | RuntimeError | ZeroDivisionError

text \<open>
  A scalar of a floating-point tensor.  Finite values are modelled by exact reals (rounding
  and overflow are abstracted, and the two signed zeros are one value); the special values
  of IEEE-754 are kept, because tensor division never raises: it yields an infinity or a
  NaN instead.
\<close>

datatype fval = Fin real | PInf | NInf | NaN

fun fadd :: "fval \<Rightarrow> fval \<Rightarrow> fval" where
  "fadd (Fin a) (Fin b) = Fin (a + b)"
| "fadd NaN _ = NaN"
| "fadd _ NaN = NaN"
| "fadd PInf NInf = NaN"
| "fadd NInf PInf = NaN"
| "fadd PInf _ = PInf"
| "fadd _ PInf = PInf"
| "fadd NInf _ = NInf"
| "fadd _ NInf = NInf"

fun fmul :: "fval \<Rightarrow> fval \<Rightarrow> fval" where
  "fmul (Fin a) (Fin b) = Fin (a * b)"
| "fmul NaN _ = NaN"
| "fmul _ NaN = NaN"
| "fmul PInf (Fin b) = (if b = 0 then NaN else if 0 < b then PInf else NInf)"
| "fmul NInf (Fin b) = (if b = 0 then NaN else if 0 < b then NInf else PInf)"
| "fmul (Fin a) PInf = (if a = 0 then NaN else if 0 < a then PInf else NInf)"
| "fmul (Fin a) NInf = (if a = 0 then NaN else if 0 < a then NInf else PInf)"
| "fmul PInf PInf = PInf"
| "fmul PInf NInf = NInf"
| "fmul NInf PInf = NInf"
| "fmul NInf NInf = PInf"

fun fdiv :: "fval \<Rightarrow> fval \<Rightarrow> fval" where
  "fdiv (Fin a) (Fin b) =
     (if b = 0 then (if a = 0 then NaN else if 0 < a then PInf else NInf)
      else Fin (a / b))"
| "fdiv NaN _ = NaN"
| "fdiv _ NaN = NaN"
| "fdiv (Fin a) PInf = Fin 0"
| "fdiv (Fin a) NInf = Fin 0"
| "fdiv PInf (Fin b) = (if 0 \<le> b then PInf else NInf)"
| "fdiv NInf (Fin b) = (if 0 \<le> b then NInf else PInf)"
| "fdiv PInf PInf = NaN"
| "fdiv PInf NInf = NaN"
| "fdiv NInf PInf = NaN"
| "fdiv NInf NInf = NaN"

section \<open>Metrics and scoring (model.py)\<close>

subsection \<open>\<open>f1_score\<close>\<close>

text \<open>
  An argument of \<open>f1_score\<close> is a Python number (an int or a float, \<open>Num\<close>) or a scalar
  float tensor (\<open>Tensor\<close>), which is what \<open>validation_end\<close> passes.  An operation with a
  tensor operand is a tensor operation and gives a tensor.  The division of two Python
  numbers raises \<open>ZeroDivisionError\<close> when the divisor is zero; the division of tensors
  never raises.
\<close>

datatype scalar = Num fval | Tensor fval

fun sadd :: "scalar \<Rightarrow> scalar \<Rightarrow> scalar" where
  "sadd (Num a) (Num b) = Num (fadd a b)"
| "sadd (Num a) (Tensor b) = Tensor (fadd a b)"
| "sadd (Tensor a) (Num b) = Tensor (fadd a b)"
| "sadd (Tensor a) (Tensor b) = Tensor (fadd a b)"

fun smul :: "scalar \<Rightarrow> scalar \<Rightarrow> scalar" where
  "smul (Num a) (Num b) = Num (fmul a b)"
| "smul (Num a) (Tensor b) = Tensor (fmul a b)"
| "smul (Tensor a) (Num b) = Tensor (fmul a b)"
| "smul (Tensor a) (Tensor b) = Tensor (fmul a b)"

fun sdiv :: "scalar \<Rightarrow> scalar \<Rightarrow> error + scalar" where
  "sdiv (Num a) (Num b) = (if b = Fin 0 then Inl ZeroDivisionError else Inr (Num (fdiv a b)))"
| "sdiv (Num a) (Tensor b) = Inr (Tensor (fdiv a b))"
| "sdiv (Tensor a) (Num b) = Inr (Tensor (fdiv a b))"
| "sdiv (Tensor a) (Tensor b) = Inr (Tensor (fdiv a b))"

text \<open>
  The dictionary \<open>prec_rec_f1\<close> with its three keys, filled one line after the other: a
  division that raises ends the call, and no dictionary is returned.
\<close>

record prec_rec_f1 =
  precision :: scalar
  recall :: scalar
  f1 :: scalar

definition f1_score :: "scalar \<Rightarrow> scalar \<Rightarrow> scalar \<Rightarrow> error + prec_rec_f1" where
  "f1_score tp' fp' fn' =
     (case sdiv tp' (sadd tp' fp') of
        Inl e \<Rightarrow> Inl e
      | Inr p \<Rightarrow>
          (case sdiv tp' (sadd tp' fn') of
             Inl e \<Rightarrow> Inl e
           | Inr r \<Rightarrow>
               (case sdiv (smul (Num (Fin 2)) (smul p r)) (sadd p r) of
                  Inl e \<Rightarrow> Inl e
                | Inr f \<Rightarrow> Inr \<lparr>precision = p, recall = r, f1 = f\<rparr>)))"

subsection \<open>\<open>metrics\<close>\<close>

text \<open>
  Indexing one dimension of size \<open>n\<close> with an integer: a negative index counts from the
  end, an index outside \<open>[-n, n)\<close> raises \<open>IndexError\<close>.
\<close>

definition norm_index :: "nat \<Rightarrow> int \<Rightarrow> error + nat" where
  "norm_index n i =
     (if 0 \<le> i \<and> i < int n then Inr (nat i)
      else if - int n \<le> i \<and> i < 0 then Inr (nat (i + int n))
      else Inl IndexError)"

text \<open>
  \<open>torch.argmax\<close> of one row of logits: the index of the first maximal value.  A row
  without entries has no argmax and the call raises.
\<close>

fun argmax_from :: "nat \<Rightarrow> real \<Rightarrow> nat \<Rightarrow> real list \<Rightarrow> nat" where
  "argmax_from best bv i [] = best"
| "argmax_from best bv i (x # xs) =
     (if bv < x then argmax_from i x (Suc i) xs else argmax_from best bv (Suc i) xs)"

fun argmax :: "real list \<Rightarrow> error + int" where
  "argmax [] = Inl IndexError"
| "argmax (x # xs) = Inr (int (argmax_from 0 x 1 xs))"

fun argmax_rows :: "real list list \<Rightarrow> error + int list" where
  "argmax_rows [] = Inr []"
| "argmax_rows (r # rs) =
     (case argmax r of
        Inl e \<Rightarrow> Inl e
      | Inr p \<Rightarrow> (case argmax_rows rs of Inl e \<Rightarrow> Inl e | Inr ps \<Rightarrow> Inr (p # ps)))"

text \<open>
  The confusion matrix \<open>cm\<close> is a 4 x 4 tensor, a list of four rows here; its entries are
  counts, kept as integers (a float tensor counts exactly far beyond any batch size).
  \<open>cm[label, pred] += 1\<close> is \<open>cm_incr\<close>, the loop over \<open>zip(labels, preds)\<close> is
  \<open>accumulate\<close>.
\<close>

definition zeros44 :: "int list list" where
  "zeros44 = replicate 4 (replicate 4 0)"

definition cm_incr :: "int list list \<Rightarrow> int \<Rightarrow> int \<Rightarrow> error + int list list" where
  "cm_incr cm label' pred =
     (case norm_index 4 label' of
        Inl e \<Rightarrow> Inl e
      | Inr i \<Rightarrow>
          (case norm_index 4 pred of
             Inl e \<Rightarrow> Inl e
           | Inr j \<Rightarrow> Inr (cm[i := (cm ! i)[j := cm ! i ! j + 1]])))"

fun accumulate :: "int list list \<Rightarrow> (int \<times> int) list \<Rightarrow> error + int list list" where
  "accumulate cm [] = Inr cm"
| "accumulate cm ((l, p) # ps) =
     (case cm_incr cm l p of Inl e \<Rightarrow> Inl e | Inr cm' \<Rightarrow> accumulate cm' ps)"

text \<open>The three slices of the matrix that \<open>metrics\<close> sums.\<close>

definition diagonal :: "int list list \<Rightarrow> int list" where
  "diagonal cm = map (\<lambda>i. cm ! i ! i) [0..<4]"

definition diag_tail_sum :: "int list list \<Rightarrow> int" where
  "diag_tail_sum cm = sum_list (drop 1 (diagonal cm))"

definition cols_tail_sum :: "int list list \<Rightarrow> int" where
  "cols_tail_sum cm = sum_list (concat (map (drop 1) cm))"

definition rows_tail_sum :: "int list list \<Rightarrow> int" where
  "rows_tail_sum cm = sum_list (concat (drop 1 cm))"

text \<open>
  \<open>(labels == preds).float().mean()\<close>: the two tensors are compared elementwise, a tensor
  of one element is broadcast, any other mismatch of the sizes raises; the mean of no
  element is NaN.
\<close>

definition mean_bool :: "bool list \<Rightarrow> fval" where
  "mean_bool bs =
     (if bs = [] then NaN
      else Fin (real (length (filter id bs)) / real (length bs)))"

definition accuracy :: "int list \<Rightarrow> int list \<Rightarrow> error + fval" where
  "accuracy labels preds =
     (if length labels = length preds then Inr (mean_bool (map2 (=) labels preds))
      else if length labels = 1 then Inr (mean_bool (map (\<lambda>p. hd labels = p) preds))
      else if length preds = 1 then Inr (mean_bool (map (\<lambda>l. l = hd preds) labels))
      else Inl RuntimeError)"

record scores =
  val_loss :: fval
  val_acc :: fval
  tp :: int
  fp :: int
  fn :: int

definition metrics :: "fval \<Rightarrow> real list list \<Rightarrow> int list \<Rightarrow> error + scores" where
  "metrics loss logits labels =
     (case argmax_rows logits of
        Inl e \<Rightarrow> Inl e
      | Inr preds \<Rightarrow>
          (case accuracy labels preds of
             Inl e \<Rightarrow> Inl e
           | Inr acc \<Rightarrow>
               (case accumulate zeros44 (zip labels preds) of
                  Inl e \<Rightarrow> Inl e
                | Inr cm \<Rightarrow>
                    (let t = diag_tail_sum cm
                     in Inr \<lparr>val_loss = loss, val_acc = acc, tp = t,
                             fp = cols_tail_sum cm - t,
                             fn = rows_tail_sum cm - t\<rparr>))))"

text \<open>
  Predicates used to state the properties of \<open>metrics\<close>: a class id is one of the four
  labels, and a confusion matrix has four rows of four entries.
\<close>

definition in_classes :: "int \<Rightarrow> bool" where
  "in_classes v \<longleftrightarrow> 0 \<le> v \<and> v \<le> 3"

definition shape44 :: "int list list \<Rightarrow> bool" where
  "shape44 cm \<longleftrightarrow> length cm = 4 \<and> list_all (\<lambda>r. length r = 4) cm"

section \<open>Sentence embedding encoder (model.py)\<close>

text \<open>
  One entry of the list \<open>opt_parameters\<close>: the module whose parameters form the group, and
  the learning rate of the group.  \<open>num_layers\<close> is \<open>bert.config.n_layers\<close>, the depth of the
  pretrained encoder; it is a parameter of the model.  Here \<open>l < num_layers\<close> in every
  exponent, so the subtraction on naturals is the one on Python's integers.
\<close>

datatype module_ref = Embeddings | Layer nat

record param_group =
  params :: module_ref
  lr :: real

definition layerwise_lr :: "nat \<Rightarrow> real \<Rightarrow> real \<Rightarrow> param_group list" where
  "layerwise_lr num_layers base_lr decay =
     [\<lparr>params = Embeddings, lr = base_lr * decay ^ num_layers\<rparr>] @
     map (\<lambda>l. \<lparr>params = Layer l, lr = base_lr * decay ^ (num_layers - l + 1)\<rparr>)
       [0..<num_layers]"

section \<open>Context classifier (model.py)\<close>

text \<open>
  A tensor of shape (batch, 3, size) is a list of conversations, each a list of turns, each
  a vector.  The layers of the module are its fields.  \<open>drop_layer\<close> is dropout under one
  fixed draw of its random mask: what it does to the vector of turn \<open>t\<close> of conversation
  \<open>b\<close> (the identity in evaluation mode).  The classification head
  (\<open>DistilBertForSequenceClassification\<close>, a library class) computes the logits from the
  input embeddings and, when labels are passed, returns the loss of these logits in front of
  them: \<open>context_transformer\<close> gives the logits and \<open>head_loss\<close> the loss.  \<open>bin_loss_fct\<close> is
  the library's \<open>BCEWithLogitsLoss\<close>.  The fields \<open>norm_layer\<close> and \<open>drop_layer\<close> are
  \<open>self.norm\<close> and \<open>self.drop\<close>.
\<close>

type_synonym vec = "real list"

record context_classifier_model =
  projection :: "vec \<Rightarrow> vec"
  position_embeds :: "vec list"
  norm_layer :: "vec \<Rightarrow> vec"
  drop_layer :: "nat \<Rightarrow> nat \<Rightarrow> vec \<Rightarrow> vec"
  context_transformer :: "vec list list \<Rightarrow> real list list"
  head_loss :: "real list list \<Rightarrow> int list \<Rightarrow> fval"
  others_label :: int
  bin_loss_fct :: "real list \<Rightarrow> real list \<Rightarrow> fval"

text \<open>\<open>self.others_label = emo_dict["others"]\<close> in the constructor.\<close>

definition init_others_label :: "(string \<rightharpoonup> int) \<Rightarrow> error + int" where
  "init_others_label emo =
     (case emo ''others'' of None \<Rightarrow> Inl (KeyError ''others'') | Some v \<Rightarrow> Inr v)"

definition vadd :: "vec \<Rightarrow> vec \<Rightarrow> vec" where
  "vadd u v = map2 (+) u v"

text \<open>\<open>logits[:, i]\<close>: entry \<open>i\<close> of every row.\<close>

fun column :: "real list list \<Rightarrow> int \<Rightarrow> error + real list" where
  "column [] i = Inr []"
| "column (r # rs) i =
     (case norm_index (length r) i of
        Inl e \<Rightarrow> Inl e
      | Inr j \<Rightarrow> (case column rs i of Inl e \<Rightarrow> Inl e | Inr c \<Rightarrow> Inr (r ! j # c)))"

definition bin_loss ::
  "context_classifier_model \<Rightarrow> real list list \<Rightarrow> int list \<Rightarrow> error + fval" where
  "bin_loss m logits labels =
     (let bin_labels = map (\<lambda>l. if l = others_label m then 1 else 0) labels
      in case column logits (others_label m) of
           Inl e \<Rightarrow> Inl e
         | Inr bin_logits \<Rightarrow> Inr (bin_loss_fct m bin_logits bin_labels))"

text \<open>
  The first half of \<open>forward\<close>, up to the tensor that is passed to the head as
  \<open>inputs_embeds\<close>.  \<open>position_ids\<close> is \<open>arange(3)\<close> expanded over the batch, which raises
  unless every conversation has three turns; the embedding of position \<open>t\<close> is row \<open>t\<close> of
  the table; \<open>flip(1)\<close> reverses the turns of every conversation.
\<close>

definition embed_turns :: "context_classifier_model \<Rightarrow> nat \<Rightarrow> vec list \<Rightarrow> vec list" where
  "embed_turns m b turns =
     map (\<lambda>(t, e). drop_layer m b t (norm_layer m (vadd (projection m e) (position_embeds m ! t))))
       (enumerate 0 turns)"

definition flip1 :: "vec list list \<Rightarrow> vec list list" where
  "flip1 x = map rev x"

definition head_input :: "context_classifier_model \<Rightarrow> vec list list \<Rightarrow> error + vec list list" where
  "head_input m sentence_embeds =
     (if list_all (\<lambda>turns. length turns = 3) sentence_embeds
      then Inr (flip1 (map (\<lambda>(b, turns). embed_turns m b turns) (enumerate 0 sentence_embeds)))
      else Inl RuntimeError)"

datatype forward_result = Logits "real list list" | LossLogits fval "real list list"

definition context_classifier_forward ::
  "context_classifier_model \<Rightarrow> vec list list \<Rightarrow> int list option \<Rightarrow> error + forward_result" where
  "context_classifier_forward m sentence_embeds labels =
     (case head_input m sentence_embeds of
        Inl e \<Rightarrow> Inl e
      | Inr x \<Rightarrow>
          (let logits = context_transformer m x
           in case labels of
                None \<Rightarrow> Inr (Logits logits)
              | Some ls \<Rightarrow>
                  (case bin_loss m logits ls of
                     Inl e \<Rightarrow> Inl e
                   | Inr bl \<Rightarrow> Inr (LossLogits (fadd (head_loss m logits ls) bl) logits))))"

section \<open>Data pipeline (dataloader.py)\<close>

text \<open>A row of the data frame; the frame is the list of its rows.\<close>

record conversation =
  turn1 :: string
  turn2 :: string
  turn3 :: string
  label :: string

text \<open>
  A tensor: its shape, its element type and its entries as nested lists.  \<open>torch.tensor\<close>
  of a nested list of integers: the empty list gives the tensor of shape (0,), whose
  elements are floats as those of every tensor made from no number; the rows must have one
  length and the innermost lists one length, otherwise the list is ragged and the call
  raises \<open>ValueError\<close>.
\<close>

datatype dtype = Int64 | Float32

record tensor =
  shape :: "nat list"
  dtype :: dtype
  entries :: "int list list list"

definition torch_tensor :: "int list list list \<Rightarrow> error + tensor" where
  "torch_tensor rows =
     (case rows of
        [] \<Rightarrow> Inr \<lparr>shape = [0], dtype = Float32, entries = []\<rparr>
      | r # rs \<Rightarrow>
          if \<not> list_all (\<lambda>r'. length r' = length r) rs then Inl ValueError
          else (case concat rows of
                  [] \<Rightarrow> Inr \<lparr>shape = [length rows, 0], dtype = Float32, entries = rows\<rparr>
                | v # vs \<Rightarrow>
                    if list_all (\<lambda>v'. length v' = length v) vs
                    then Inr \<lparr>shape = [length rows, length r, length v],
                              dtype = (if concat (concat rows) = [] then Float32 else Int64),
                              entries = rows\<rparr>
                    else Inl ValueError))"

text \<open>
  \<open>torch.where(padded != 0, torch.ones_like(padded), torch.zeros_like(padded))\<close>: a tensor
  of the shape and element type of \<open>padded\<close>.
\<close>

definition where_nonzero :: "tensor \<Rightarrow> tensor" where
  "where_nonzero padded =
     padded\<lparr>entries := map (map (map (\<lambda>v. if v \<noteq> 0 then 1 else 0))) (entries padded)\<rparr>"

text \<open>
  \<open>encode t max_seq_len\<close> is the tokenizer's
  \<open>encode(t, add_special_tokens=True, max_length=max_seq_len)\<close>, a library function and a
  parameter here.  \<open>[0] * k\<close> is the empty list when \<open>k\<close> is negative.
\<close>

definition pad :: "int \<Rightarrow> int list \<Rightarrow> int list" where
  "pad max_seq_len ids = ids @ replicate (nat (max_seq_len - int (length ids))) 0"

definition transform_data ::
  "(string \<Rightarrow> int \<Rightarrow> int list) \<Rightarrow> conversation list \<Rightarrow> int \<Rightarrow> error + (tensor \<times> tensor)" where
  "transform_data encode df max_seq_len =
     (let tokenized = map (\<lambda>r. map (\<lambda>turn. encode turn max_seq_len) [turn1 r, turn2 r, turn3 r]) df
      in case torch_tensor (map (map (pad max_seq_len)) tokenized) of
           Inl e \<Rightarrow> Inl e
         | Inr padded \<Rightarrow> Inr (padded, where_nonzero padded))"

text \<open>
  \<open>get_labels\<close>: the list comprehension looks the labels up one after the other and stops
  at the first one that is no key of the dictionary.
\<close>

fun get_labels :: "conversation list \<Rightarrow> (string \<rightharpoonup> int) \<Rightarrow> error + int list" where
  "get_labels [] emo = Inr []"
| "get_labels (r # rs) emo =
     (case emo (label r) of
        None \<Rightarrow> Inl (KeyError (label r))
      | Some v \<Rightarrow> (case get_labels rs emo of Inl e \<Rightarrow> Inl e | Inr vs \<Rightarrow> Inr (v # vs)))"

section \<open>Training module (lightning.py)\<close>

text \<open>\<open>self.emo_dict\<close> of \<open>EmotionModel\<close>.\<close>

definition emo_dict :: "string \<rightharpoonup> int" where
  "emo_dict = map_of [(''others'', 0), (''sad'', 1), (''angry'', 2), (''happy'', 3)]"

text \<open>The hyperparameter that \<open>forward\<close> reads.\<close>

record hparams =
  frozen_epochs :: int

text \<open>
  \<open>EmotionModel.forward\<close>.  Whether autograd records is a global mode of the library:
  \<open>grad_enabled\<close> is the mode in which \<open>forward\<close> is called, and \<open>with torch.no_grad()\<close>
  runs its body with the mode switched off.  The two sub-models are parameters; the
  encoder takes the mode it runs in as its first argument.
\<close>

definition EmotionModel_forward ::
  "(bool \<Rightarrow> 'i \<Rightarrow> 'a \<Rightarrow> 'e) \<Rightarrow> ('e \<Rightarrow> 'l option \<Rightarrow> 'r) \<Rightarrow> hparams \<Rightarrow> int \<Rightarrow> bool
     \<Rightarrow> 'i \<Rightarrow> 'a \<Rightarrow> 'l option \<Rightarrow> 'r" where
  "EmotionModel_forward sentence_embeds_model ccm hp current_epoch grad_enabled
       input_ids attention_mask labels =
     (let sentence_embeds =
        (if current_epoch < frozen_epochs hp
         then sentence_embeds_model False input_ids attention_mask
         else sentence_embeds_model grad_enabled input_ids attention_mask)
      in ccm sentence_embeds labels)"

text \<open>
  The mode the encoder runs in during a call of \<open>forward\<close>, read off by an encoder that
  returns its mode and a classifier that passes it on.
\<close>

definition encoder_records_grad :: "hparams \<Rightarrow> int \<Rightarrow> bool \<Rightarrow> bool" where
  "encoder_records_grad hp current_epoch grad_enabled =
     EmotionModel_forward (\<lambda>g (i::unit) (a::unit). g) (\<lambda>e (l::unit option). e)
       hp current_epoch grad_enabled () () None"

section \<open>Example inputs\<close>

text \<open>
  A small tokenizer and a small classifier module, used to run the model on concrete
  inputs.  The tokenizer puts the two boundary tokens around one id per character and cuts
  the result at \<open>max_length\<close>.  The module doubles its input as projection, has no
  normalisation and no dropout, and its head reads the first coordinate of the three
  positions into the first three logits.
\<close>

definition example_encode :: "string \<Rightarrow> int \<Rightarrow> int list" where
  "example_encode turn m =
     take (nat m) ([101] @ map (\<lambda>c. 1000 + int (of_char c)) turn @ [102])"

definition example_model :: context_classifier_model where
  "example_model =
     \<lparr>projection = map (\<lambda>v. 2 * v),
      position_embeds = [[1, 1], [10, 10], [100, 100]],
      norm_layer = (\<lambda>v. v),
      drop_layer = (\<lambda>b t v. v),
      context_transformer = map (\<lambda>conv. [hd (conv ! 0), hd (conv ! 1), hd (conv ! 2), 0]),
      head_loss = (\<lambda>logits labels. Fin (real (length labels))),
      others_label = 0,
      bin_loss_fct = (\<lambda>xs ys. Fin (sum_list (map2 (\<lambda>x y. x * y) xs ys)))\<rparr>"

section \<open>Properties of \<open>f1_score\<close>\<close>

text \<open>
  C6.  On scalar float tensors holding counts (finite, not negative), \<open>f1_score\<close> returns a
  dictionary and does not raise: precision is tp / (tp + fp) and recall is tp / (tp + fn)
  where the denominator is not zero, f1 is 2 * precision * recall / (precision + recall)
  where tp is positive; where tp + fp = 0 the precision is NaN, where tp + fn = 0 the recall
  is NaN, and the f1 value is NaN with it.  On tensors \<open>f1_score(3, 1, 1)\<close> is 0.75 three
  times and \<open>f1_score(0, 0, 5)\<close> has recall 0 and precision NaN.  On Python numbers the same
  formulas hold where tp is positive, so \<open>f1_score(3, 1, 1)\<close> is 0.75 three times there
  too, but where tp + fp = 0 or tp + fn = 0 the call raises \<open>ZeroDivisionError\<close> and no
  value is returned.
\<close>

theorem f1_score_formulas:
  assumes "0 \<le> a" "0 \<le> b" "0 \<le> c"
  shows "(\<exists>r. f1_score (Tensor (Fin a)) (Tensor (Fin b)) (Tensor (Fin c)) = Inr r
           \<and> (a + b \<noteq> 0 \<longrightarrow> precision r = Tensor (Fin (a / (a + b))))
           \<and> (a + c \<noteq> 0 \<longrightarrow> recall r = Tensor (Fin (a / (a + c))))
           \<and> (0 < a \<longrightarrow> f1 r =
                Tensor (Fin (2 * (a / (a + b) * (a / (a + c))) / (a / (a + b) + a / (a + c)))))
           \<and> (a + b = 0 \<longrightarrow> precision r = Tensor NaN \<and> f1 r = Tensor NaN)
           \<and> (a + c = 0 \<longrightarrow> recall r = Tensor NaN \<and> f1 r = Tensor NaN))
       \<and> (0 < a \<longrightarrow> f1_score (Num (Fin a)) (Num (Fin b)) (Num (Fin c)) =
            Inr \<lparr>precision = Num (Fin (a / (a + b))), recall = Num (Fin (a / (a + c))),
                 f1 = Num (Fin (2 * (a / (a + b) * (a / (a + c))) / (a / (a + b) + a / (a + c))))\<rparr>)
       \<and> (a + b = 0 \<or> a + c = 0 \<longrightarrow>
            f1_score (Num (Fin a)) (Num (Fin b)) (Num (Fin c)) = Inl ZeroDivisionError)
       \<and> f1_score (Tensor (Fin 3)) (Tensor (Fin 1)) (Tensor (Fin 1)) =
            Inr \<lparr>precision = Tensor (Fin (3 / 4)), recall = Tensor (Fin (3 / 4)),
                 f1 = Tensor (Fin (3 / 4))\<rparr>
       \<and> f1_score (Tensor (Fin 0)) (Tensor (Fin 0)) (Tensor (Fin 5)) =
            Inr \<lparr>precision = Tensor NaN, recall = Tensor (Fin 0), f1 = Tensor NaN\<rparr>
       \<and> f1_score (Num (Fin 3)) (Num (Fin 1)) (Num (Fin 1)) =
            Inr \<lparr>precision = Num (Fin (3 / 4)), recall = Num (Fin (3 / 4)),
                 f1 = Num (Fin (3 / 4))\<rparr>"
proof -
  have pos: "0 < a \<Longrightarrow> a / (a + b) + a / (a + c) \<noteq> 0"
  proof -
    assume "0 < a"
    with assms have "0 < a / (a + b)" "0 < a / (a + c)" by simp_all
    then show ?thesis by linarith
  qed
  have z1: "a + b = 0 \<Longrightarrow> a = 0" and z2: "a + c = 0 \<Longrightarrow> a = 0"
    using assms by linarith+
  have nz: "0 < a \<Longrightarrow> a + b \<noteq> 0 \<and> a + c \<noteq> 0" using assms by linarith
  have tensors: "\<exists>r. f1_score (Tensor (Fin a)) (Tensor (Fin b)) (Tensor (Fin c)) = Inr r
           \<and> (a + b \<noteq> 0 \<longrightarrow> precision r = Tensor (Fin (a / (a + b))))
           \<and> (a + c \<noteq> 0 \<longrightarrow> recall r = Tensor (Fin (a / (a + c))))
           \<and> (0 < a \<longrightarrow> f1 r =
                Tensor (Fin (2 * (a / (a + b) * (a / (a + c))) / (a / (a + b) + a / (a + c)))))
           \<and> (a + b = 0 \<longrightarrow> precision r = Tensor NaN \<and> f1 r = Tensor NaN)
           \<and> (a + c = 0 \<longrightarrow> recall r = Tensor NaN \<and> f1 r = Tensor NaN)"
    using pos z1 z2 nz by (auto simp add: f1_score_def)
  have numbers: "0 < a \<longrightarrow> f1_score (Num (Fin a)) (Num (Fin b)) (Num (Fin c)) =
            Inr \<lparr>precision = Num (Fin (a / (a + b))), recall = Num (Fin (a / (a + c))),
                 f1 = Num (Fin (2 * (a / (a + b) * (a / (a + c))) / (a / (a + b) + a / (a + c))))\<rparr>"
    using pos nz by (auto simp add: f1_score_def)
  have raises: "a + b = 0 \<or> a + c = 0 \<longrightarrow>
            f1_score (Num (Fin a)) (Num (Fin b)) (Num (Fin c)) = Inl ZeroDivisionError"
    using z1 z2 by (auto simp add: f1_score_def)
  have ex1: "f1_score (Tensor (Fin 3)) (Tensor (Fin 1)) (Tensor (Fin 1)) =
            Inr \<lparr>precision = Tensor (Fin (3 / 4)), recall = Tensor (Fin (3 / 4)),
                 f1 = Tensor (Fin (3 / 4))\<rparr>"
    by (simp add: f1_score_def)
  have ex2: "f1_score (Tensor (Fin 0)) (Tensor (Fin 0)) (Tensor (Fin 5)) =
            Inr \<lparr>precision = Tensor NaN, recall = Tensor (Fin 0), f1 = Tensor NaN\<rparr>"
    by (simp add: f1_score_def)
  have ex3: "f1_score (Num (Fin 3)) (Num (Fin 1)) (Num (Fin 1)) =
            Inr \<lparr>precision = Num (Fin (3 / 4)), recall = Num (Fin (3 / 4)),
                 f1 = Num (Fin (3 / 4))\<rparr>"
    by (simp add: f1_score_def)
  from tensors numbers raises ex1 ex2 ex3 show ?thesis by blast
qed

theorem f1_score_formulas_witness:
  "(\<exists>r. f1_score (Tensor (Fin 4)) (Tensor (Fin 4)) (Tensor (Fin 12)) = Inr r
      \<and> precision r = Tensor (Fin (1 / 2)) \<and> recall r = Tensor (Fin (1 / 4))
      \<and> f1 r = Tensor (Fin (1 / 3)))
   \<and> (\<exists>r. f1_score (Tensor (Fin 0)) (Tensor (Fin 0)) (Tensor (Fin 5)) = Inr r
      \<and> precision r = Tensor NaN \<and> recall r = Tensor (Fin 0) \<and> f1 r = Tensor NaN)
   \<and> f1_score (Num (Fin 0)) (Num (Fin 7)) (Num (Fin 0)) = Inl ZeroDivisionError"
proof -
  from f1_score_formulas [of 4 4 12]
  have a: "\<exists>r. f1_score (Tensor (Fin 4)) (Tensor (Fin 4)) (Tensor (Fin 12)) = Inr r
      \<and> precision r = Tensor (Fin (1 / 2)) \<and> recall r = Tensor (Fin (1 / 4))
      \<and> f1 r = Tensor (Fin (1 / 3))"
    by simp
  from f1_score_formulas [of 0 0 5]
  have b: "\<exists>r. f1_score (Tensor (Fin 0)) (Tensor (Fin 0)) (Tensor (Fin 5)) = Inr r
      \<and> precision r = Tensor NaN \<and> recall r = Tensor (Fin 0) \<and> f1 r = Tensor NaN"
    by simp
  from f1_score_formulas [of 0 7 0]
  have c: "f1_score (Num (Fin 0)) (Num (Fin 7)) (Num (Fin 0)) = Inl ZeroDivisionError"
    by simp
  from a b c show ?thesis by blast
qed

theorem f1_score_formulas_counterexample:
  "f1_score (Num (Fin 0)) (Num (Fin 0)) (Num (Fin 5)) = Inl ZeroDivisionError"
  by (simp add: f1_score_def)

text \<open>
  C10.  With tp = 0 and fp, fn positive, on scalar float tensors precision and recall are
  both the number 0 and the f1 value is 0 / 0, which is NaN.  On Python numbers precision
  and recall are computed as 0 as well, but the division 0 / 0 of the f1 line raises
  \<open>ZeroDivisionError\<close>, and the call returns nothing.
\<close>

theorem f1_score_zero_tp:
  assumes "0 < b" "0 < c"
  shows "f1_score (Tensor (Fin 0)) (Tensor (Fin b)) (Tensor (Fin c)) =
           Inr \<lparr>precision = Tensor (Fin 0), recall = Tensor (Fin 0), f1 = Tensor NaN\<rparr>
       \<and> sdiv (Num (Fin 0)) (sadd (Num (Fin 0)) (Num (Fin b))) = Inr (Num (Fin 0))
       \<and> sdiv (Num (Fin 0)) (sadd (Num (Fin 0)) (Num (Fin c))) = Inr (Num (Fin 0))
       \<and> f1_score (Num (Fin 0)) (Num (Fin b)) (Num (Fin c)) = Inl ZeroDivisionError"
  using assms by (simp add: f1_score_def)

theorem f1_score_zero_tp_witness:
  "f1_score (Tensor (Fin 0)) (Tensor (Fin 2)) (Tensor (Fin 5)) =
     Inr \<lparr>precision = Tensor (Fin 0), recall = Tensor (Fin 0), f1 = Tensor NaN\<rparr>
   \<and> f1_score (Num (Fin 0)) (Num (Fin 3)) (Num (Fin 1)) = Inl ZeroDivisionError"
  using f1_score_zero_tp [of 2 5] f1_score_zero_tp [of 3 1] by simp

theorem f1_score_zero_tp_counterexample:
  "sdiv (Num (Fin 0)) (sadd (Num (Fin 0)) (Num (Fin 2))) = Inr (Num (Fin 0))
   \<and> sdiv (Num (Fin 0)) (sadd (Num (Fin 0)) (Num (Fin 5))) = Inr (Num (Fin 0))
   \<and> f1_score (Num (Fin 0)) (Num (Fin 2)) (Num (Fin 5)) = Inl ZeroDivisionError"
  by (simp add: f1_score_def)

section \<open>Properties of \<open>metrics\<close>\<close>

lemma length4_expand:
  assumes "length xs = 4"
  obtains a b c d where "xs = [a, b, c, d]"
proof -
  from assms obtain a b c d where "xs = [a, b, c, d]"
    by (auto simp add: length_Suc_conv numeral_eq_Suc)
  then show ?thesis by (rule that)
qed

lemma shape44_expand:
  assumes "shape44 cm"
  obtains r0 r1 r2 r3 where "cm = [r0, r1, r2, r3]"
    "length r0 = 4" "length r1 = 4" "length r2 = 4" "length r3 = 4"
proof -
  from assms have "length cm = 4" by (simp add: shape44_def)
  then obtain r0 r1 r2 r3 where cm: "cm = [r0, r1, r2, r3]" by (rule length4_expand)
  with assms show ?thesis by (intro that[of r0 r1 r2 r3]) (simp_all add: shape44_def)
qed

lemma in_range_cases:
  assumes "0 \<le> (i::int)" "i \<le> 3"
  shows "i = 0 \<or> i = 1 \<or> i = 2 \<or> i = 3"
  using assms by arith

lemma shape44_zeros: "shape44 zeros44"
  by (simp add: shape44_def zeros44_def numeral_eq_Suc)

lemma sums_zeros:
  "diag_tail_sum zeros44 = 0" "cols_tail_sum zeros44 = 0" "rows_tail_sum zeros44 = 0"
  by (simp_all add: zeros44_def diag_tail_sum_def diagonal_def cols_tail_sum_def
      rows_tail_sum_def numeral_eq_Suc upt_rec)

text \<open>One pass of the loop body: which of the three sums the increment reaches.\<close>

lemma cm_incr_step:
  assumes sh: "shape44 cm" and l: "0 \<le> l" "l \<le> 3" and p: "0 \<le> p" "p \<le> 3"
  shows "\<exists>cm'. cm_incr cm l p = Inr cm' \<and> shape44 cm'
     \<and> diag_tail_sum cm' = diag_tail_sum cm + (if l = p \<and> 1 \<le> l then 1 else 0)
     \<and> cols_tail_sum cm' = cols_tail_sum cm + (if 1 \<le> p then 1 else 0)
     \<and> rows_tail_sum cm' = rows_tail_sum cm + (if 1 \<le> l then 1 else 0)"
proof -
  from sh obtain r0 r1 r2 r3 where cm: "cm = [r0, r1, r2, r3]"
    and "length r0 = 4" "length r1 = 4" "length r2 = 4" "length r3 = 4"
    by (rule shape44_expand)
  then obtain a0 a1 a2 a3 b0 b1 b2 b3 c0 c1 c2 c3 d0 d1 d2 d3 where
    rows: "r0 = [a0, a1, a2, a3]" "r1 = [b0, b1, b2, b3]"
          "r2 = [c0, c1, c2, c3]" "r3 = [d0, d1, d2, d3]"
    by (metis length4_expand)
  from l have lc: "l = 0 \<or> l = 1 \<or> l = 2 \<or> l = 3" by (rule in_range_cases)
  from p have pc: "p = 0 \<or> p = 1 \<or> p = 2 \<or> p = 3" by (rule in_range_cases)
  show ?thesis
    using lc pc
    by (elim disjE; simp add: cm rows cm_incr_def norm_index_def shape44_def diag_tail_sum_def
        diagonal_def cols_tail_sum_def rows_tail_sum_def numeral_eq_Suc upt_rec)
qed

lemma length_filter_mono:
  "(\<And>x. P x \<Longrightarrow> Q x) \<Longrightarrow> length (filter P xs) \<le> length (filter Q xs)"
  by (induction xs) auto

lemma length_filter_zip_snd:
  "length xs = length ys \<Longrightarrow>
   length (filter (\<lambda>(x, y). P y) (zip xs ys)) = length (filter P ys)"
  by (induction xs ys rule: list_induct2) auto

lemma length_filter_zip_fst:
  "length xs = length ys \<Longrightarrow>
   length (filter (\<lambda>(x, y). P x) (zip xs ys)) = length (filter P xs)"
  by (induction xs ys rule: list_induct2) auto

text \<open>The whole loop, from any matrix of the right shape.\<close>

lemma accumulate_sums:
  assumes "shape44 cm" and "list_all (\<lambda>(l, p). in_classes l \<and> in_classes p) ps"
  shows "\<exists>cm'. accumulate cm ps = Inr cm' \<and> shape44 cm'
     \<and> diag_tail_sum cm' =
         diag_tail_sum cm + int (length (filter (\<lambda>(l, p). l = p \<and> 1 \<le> l) ps))
     \<and> cols_tail_sum cm' = cols_tail_sum cm + int (length (filter (\<lambda>(l, p). 1 \<le> p) ps))
     \<and> rows_tail_sum cm' = rows_tail_sum cm + int (length (filter (\<lambda>(l, p). 1 \<le> l) ps))"
  using assms
proof (induction ps arbitrary: cm)
  case Nil
  then show ?case by simp
next
  case (Cons lp ps)
  obtain l p where lp: "lp = (l, p)" by (cases lp)
  from Cons.prems lp have rng: "0 \<le> l" "l \<le> 3" "0 \<le> p" "p \<le> 3"
    and rest: "list_all (\<lambda>(l, p). in_classes l \<and> in_classes p) ps"
    by (simp_all add: in_classes_def)
  from cm_incr_step [OF Cons.prems(1) rng] obtain cm1 where
    step: "cm_incr cm l p = Inr cm1" and sh1: "shape44 cm1"
    and d1: "diag_tail_sum cm1 = diag_tail_sum cm + (if l = p \<and> 1 \<le> l then 1 else 0)"
    and c1: "cols_tail_sum cm1 = cols_tail_sum cm + (if 1 \<le> p then 1 else 0)"
    and r1: "rows_tail_sum cm1 = rows_tail_sum cm + (if 1 \<le> l then 1 else 0)"
    by blast
  from Cons.IH [OF sh1 rest] obtain cm2 where
    acc: "accumulate cm1 ps = Inr cm2" and sh2: "shape44 cm2"
    and d2: "diag_tail_sum cm2 =
         diag_tail_sum cm1 + int (length (filter (\<lambda>(l, p). l = p \<and> 1 \<le> l) ps))"
    and c2: "cols_tail_sum cm2 = cols_tail_sum cm1 + int (length (filter (\<lambda>(l, p). 1 \<le> p) ps))"
    and r2: "rows_tail_sum cm2 = rows_tail_sum cm1 + int (length (filter (\<lambda>(l, p). 1 \<le> l) ps))"
    by blast
  have "accumulate cm (lp # ps) = Inr cm2" by (simp add: lp step acc)
  moreover have "diag_tail_sum cm2 =
      diag_tail_sum cm + int (length (filter (\<lambda>(l, p). l = p \<and> 1 \<le> l) (lp # ps)))"
    by (simp add: d2 d1 lp)
  moreover have "cols_tail_sum cm2 =
      cols_tail_sum cm + int (length (filter (\<lambda>(l, p). 1 \<le> p) (lp # ps)))"
    by (simp add: c2 c1 lp)
  moreover have "rows_tail_sum cm2 =
      rows_tail_sum cm + int (length (filter (\<lambda>(l, p). 1 \<le> l) (lp # ps)))"
    by (simp add: r2 r1 lp)
  ultimately show ?case using sh2 by blast
qed

lemma accuracy_same_length:
  "length labels = length preds \<Longrightarrow>
   accuracy labels preds = Inr (mean_bool (map2 (=) labels preds))"
  by (simp add: accuracy_def)

text \<open>
  C9.  For a batch whose labels and argmax predictions are class ids in {0, 1, 2, 3},
  \<open>metrics\<close> returns, and its counts satisfy: tp + fp is the number of examples predicted
  as one of the classes 1, 2, 3; tp + fn is the number of examples whose label is one of
  them; tp is the number of examples predicted correctly as one of them; and tp, fp, fn
  are not negative, so tp is at most tp + fp and at most tp + fn.
\<close>

theorem metrics_counts:
  assumes preds: "argmax_rows logits = Inr preds"
    and len: "length labels = length preds"
    and labs: "set labels \<subseteq> {0, 1, 2, 3}"
    and prs: "set preds \<subseteq> {0, 1, 2, 3}"
  shows "\<exists>r. metrics loss logits labels = Inr r
     \<and> tp r + fp r = int (length (filter (\<lambda>p. 1 \<le> p) preds))
     \<and> tp r + fn r = int (length (filter (\<lambda>l. 1 \<le> l) labels))
     \<and> tp r = int (length (filter (\<lambda>(l, p). l = p \<and> 1 \<le> l) (zip labels preds)))
     \<and> 0 \<le> tp r \<and> 0 \<le> fp r \<and> 0 \<le> fn r
     \<and> tp r \<le> tp r + fp r \<and> tp r \<le> tp r + fn r"
proof -
  let ?ps = "zip labels preds"
  have "list_all in_classes labels" "list_all in_classes preds"
    using labs prs by (auto simp add: list_all_iff in_classes_def)
  then have all: "list_all (\<lambda>(l, p). in_classes l \<and> in_classes p) ?ps"
    by (auto simp add: list_all_iff dest: set_zip_leftD set_zip_rightD)
  from accumulate_sums [OF shape44_zeros all] obtain cm where
    acc: "accumulate zeros44 ?ps = Inr cm"
    and d: "diag_tail_sum cm = int (length (filter (\<lambda>(l, p). l = p \<and> 1 \<le> l) ?ps))"
    and c: "cols_tail_sum cm = int (length (filter (\<lambda>(l, p). 1 \<le> p) ?ps))"
    and r: "rows_tail_sum cm = int (length (filter (\<lambda>(l, p). 1 \<le> l) ?ps))"
    by (auto simp add: sums_zeros)
  define res where "res = \<lparr>val_loss = loss, val_acc = mean_bool (map2 (=) labels preds),
      tp = diag_tail_sum cm, fp = cols_tail_sum cm - diag_tail_sum cm,
      fn = rows_tail_sum cm - diag_tail_sum cm\<rparr>"
  have m: "metrics loss logits labels = Inr res"
    by (simp add: metrics_def preds accuracy_same_length [OF len] acc res_def Let_def)
  have c': "cols_tail_sum cm = int (length (filter (\<lambda>p. 1 \<le> p) preds))"
    using c length_filter_zip_snd [OF len, of "\<lambda>p. 1 \<le> p"] by simp
  have r': "rows_tail_sum cm = int (length (filter (\<lambda>l. 1 \<le> l) labels))"
    using r length_filter_zip_fst [OF len, of "\<lambda>l. 1 \<le> l"] by simp
  have le_c: "diag_tail_sum cm \<le> cols_tail_sum cm"
    unfolding d c by (simp, rule length_filter_mono) auto
  have le_r: "diag_tail_sum cm \<le> rows_tail_sum cm"
    unfolding d r by (simp, rule length_filter_mono) auto
  have nn: "0 \<le> diag_tail_sum cm" unfolding d by simp
  have "tp res + fp res = int (length (filter (\<lambda>p. 1 \<le> p) preds))"
    by (simp add: res_def c')
  moreover have "tp res + fn res = int (length (filter (\<lambda>l. 1 \<le> l) labels))"
    by (simp add: res_def r')
  moreover have "tp res = int (length (filter (\<lambda>(l, p). l = p \<and> 1 \<le> l) ?ps))"
    by (simp add: res_def d)
  moreover have "0 \<le> tp res" "0 \<le> fp res" "0 \<le> fn res"
    using nn le_c le_r by (simp_all add: res_def)
  ultimately show ?thesis using m by auto
qed

theorem metrics_counts_witness:
  "\<exists>r. metrics (Fin 1) [[0, 1, 0, 0], [0, 0, 0, 1], [0, 0, 1, 0], [1, 0, 0, 0], [0, 1, 0, 0]]
          [1, 0, 2, 0, 3] = Inr r
     \<and> tp r + fp r = 4 \<and> tp r + fn r = 3 \<and> tp r = 2 \<and> 0 \<le> fp r \<and> 0 \<le> fn r"
  using metrics_counts [of "[[0, 1, 0, 0], [0, 0, 0, 1], [0, 0, 1, 0], [1, 0, 0, 0], [0, 1, 0, 0]]"
      "[1, 3, 2, 0, 1]" "[1, 0, 2, 0, 3]" "Fin 1"]
  by auto

text \<open>
  C1.  For a batch whose argmax predictions are [1, 1, 2, 0] and whose labels are
  [1, 2, 2, 0], \<open>metrics\<close> returns tp = 2, fp = 1 and fn = 1: two examples (the first and the
  third) are predicted correctly as a class other than 0, so tp is 2 and not 1.
\<close>

theorem metrics_example:
  assumes "argmax_rows logits = Inr [1, 1, 2, 0]"
  shows "\<exists>r. metrics loss logits [1, 2, 2, 0] = Inr r \<and> tp r = 2 \<and> fp r = 1 \<and> fn r = 1"
  using assms
  by (simp add: metrics_def accuracy_def zeros44_def cm_incr_def norm_index_def
      diag_tail_sum_def diagonal_def cols_tail_sum_def rows_tail_sum_def Let_def
      numeral_eq_Suc upt_rec)

theorem metrics_example_witness:
  "\<exists>r. metrics (Fin 1) [[0, 1, 0, 0], [0, 1, 0, 0], [0, 0, 1, 0], [1, 0, 0, 0]] [1, 2, 2, 0] = Inr r
     \<and> tp r = 2 \<and> fp r = 1 \<and> fn r = 1"
  using metrics_example [of "[[0, 1, 0, 0], [0, 1, 0, 0], [0, 0, 1, 0], [1, 0, 0, 0]]" "Fin 1"]
  by simp

theorem metrics_example_counterexample:
  "argmax_rows [[0, 1, 0, 0], [0, 1, 0, 0], [0, 0, 1, 0], [1, 0, 0, 0]] = Inr [1, 1, 2, 0]
   \<and> \<not> (\<exists>r. metrics (Fin 1) [[0, 1, 0, 0], [0, 1, 0, 0], [0, 0, 1, 0], [1, 0, 0, 0]] [1, 2, 2, 0]
            = Inr r \<and> tp r = 1 \<and> fp r = 1 \<and> fn r = 1)"
  by (simp add: metrics_def accuracy_def zeros44_def cm_incr_def norm_index_def
      diag_tail_sum_def diagonal_def cols_tail_sum_def rows_tail_sum_def Let_def
      numeral_eq_Suc upt_rec)

section \<open>Properties of \<open>layerwise_lr\<close>\<close>

lemma layerwise_lr_length: "length (layerwise_lr n b d) = n + 1"
  by (simp add: layerwise_lr_def)

lemma layerwise_lr_embeddings:
  "layerwise_lr n b d ! 0 = \<lparr>params = Embeddings, lr = b * d ^ n\<rparr>"
  by (simp add: layerwise_lr_def)

lemma layerwise_lr_layer:
  "l < n \<Longrightarrow> layerwise_lr n b d ! Suc l = \<lparr>params = Layer l, lr = b * d ^ (n - l + 1)\<rparr>"
  by (simp add: layerwise_lr_def)

lemma layerwise_lr_layers_increase:
  assumes "0 < b" "0 < d" "d < 1" "l < l'" "l' < n"
  shows "lr (layerwise_lr n b d ! Suc l) < lr (layerwise_lr n b d ! Suc l')"
proof -
  from assms have "n - l' + 1 < n - l + 1" by arith
  with assms have "d ^ (n - l + 1) < d ^ (n - l' + 1)"
    by (simp add: power_strict_decreasing)
  with assms show ?thesis
    by (simp add: layerwise_lr_layer)
qed

text \<open>
  C2.  The list has \<open>num_layers + 1\<close> groups, the embeddings first, then the layers from
  the first to the last; every rate is the base rate times a power of the decay, and among
  the layers the rates rise with the depth (\<open>layerwise_lr_layers_increase\<close>).  The exponent
  of layer \<open>l\<close> is \<open>num_layers - l + 1\<close>, though: that of the first layer is
  \<open>num_layers + 1\<close>, one more than that of the embeddings.  For a positive base rate and a
  decay between 0 and 1 the first layer therefore gets a rate below that of the embeddings,
  which do not have the smallest rate of the list.
\<close>

theorem layerwise_lr_first_layer_below_embeddings:
  assumes "0 < b" "0 < d" "d < 1" "0 < n"
  shows "length (layerwise_lr n b d) = n + 1
       \<and> params (layerwise_lr n b d ! 0) = Embeddings
       \<and> lr (layerwise_lr n b d ! 0) = b * d ^ n
       \<and> params (layerwise_lr n b d ! 1) = Layer 0
       \<and> lr (layerwise_lr n b d ! 1) = b * d ^ (n + 1)
       \<and> lr (layerwise_lr n b d ! 1) < lr (layerwise_lr n b d ! 0)"
proof -
  have l0: "layerwise_lr n b d ! Suc 0 = \<lparr>params = Layer 0, lr = b * d ^ (n + 1)\<rparr>"
    using layerwise_lr_layer [of 0 n b d] assms by simp
  have "d ^ n * d < d ^ n * 1"
    using assms by (intro mult_strict_left_mono) simp_all
  then have "b * d ^ (n + 1) < b * d ^ n"
    using assms by (simp add: mult.commute)
  then show ?thesis
    by (simp add: layerwise_lr_length layerwise_lr_embeddings l0)
qed

theorem layerwise_lr_first_layer_below_embeddings_witness:
  "params (layerwise_lr 6 (1 / 50000) (19 / 20) ! 1) = Layer 0
   \<and> params (layerwise_lr 6 (1 / 50000) (19 / 20) ! 0) = Embeddings
   \<and> lr (layerwise_lr 6 (1 / 50000) (19 / 20) ! 1) < lr (layerwise_lr 6 (1 / 50000) (19 / 20) ! 0)
   \<and> length (layerwise_lr 6 (1 / 50000) (19 / 20)) = 7"
  using layerwise_lr_first_layer_below_embeddings [of "1 / 50000" "19 / 20" 6]
  by simp

lemma layerwise_lr_second_layer_equals_embeddings:
  "1 < n \<Longrightarrow> lr (layerwise_lr n b d ! Suc (Suc 0)) = lr (layerwise_lr n b d ! 0)"
  using layerwise_lr_layer [of 1 n b d] by (simp add: layerwise_lr_embeddings)


section \<open>Properties of \<open>get_labels\<close>\<close>

lemma emo_dict_values:
  "emo_dict ''others'' = Some 0" "emo_dict ''sad'' = Some 1"
  "emo_dict ''angry'' = Some 2" "emo_dict ''happy'' = Some 3"
  by (simp_all add: emo_dict_def)

lemma dom_emo_dict: "dom emo_dict = {''others'', ''sad'', ''angry'', ''happy''}"
  by (auto simp add: emo_dict_def dom_def split: if_splits)

lemma get_labels_known:
  "(\<And>r. r \<in> set df \<Longrightarrow> label r \<in> dom emo) \<Longrightarrow>
   get_labels df emo = Inr (map (\<lambda>r. the (emo (label r))) df)"
  by (induction df) (auto split: option.splits)

lemma get_labels_unknown:
  "\<exists>r\<in>set df. label r \<notin> dom emo \<Longrightarrow>
   \<exists>k. get_labels df emo = Inl (KeyError k) \<and> k \<notin> dom emo"
proof (induction df)
  case Nil
  then show ?case by simp
next
  case (Cons r rs)
  show ?case
  proof (cases "emo (label r)")
    case None
    then show ?thesis by (auto simp add: dom_def)
  next
    case (Some v)
    with Cons.prems have "\<exists>r\<in>set rs. label r \<notin> dom emo" by auto
    from Cons.IH [OF this] Some show ?thesis by auto
  qed
qed

text \<open>
  C7.  The dictionary of the training module maps the four labels to 0, 1, 2, 3, one to
  one.  \<open>get_labels\<close> returns the ids of the labels when every label of the frame is a key,
  and fails with a \<open>KeyError\<close> for a label that is no key as soon as the frame has one:
  no default stands in for an unknown label.
\<close>

theorem get_labels_bijection_or_key_error:
  "emo_dict ''others'' = Some 0 \<and> emo_dict ''sad'' = Some 1
   \<and> emo_dict ''angry'' = Some 2 \<and> emo_dict ''happy'' = Some 3
   \<and> dom emo_dict = {''others'', ''sad'', ''angry'', ''happy''}
   \<and> bij_betw (\<lambda>k. the (emo_dict k)) (dom emo_dict) {0, 1, 2, 3}
   \<and> ((\<forall>r\<in>set df. label r \<in> dom emo_dict) \<longrightarrow>
        get_labels df emo_dict = Inr (map (\<lambda>r. the (emo_dict (label r))) df))
   \<and> ((\<exists>r\<in>set df. label r \<notin> dom emo_dict) \<longrightarrow>
        (\<exists>k. get_labels df emo_dict = Inl (KeyError k) \<and> k \<notin> dom emo_dict))"
proof -
  have bij: "bij_betw (\<lambda>k. the (emo_dict k)) (dom emo_dict) {0, 1, 2, 3}"
    unfolding bij_betw_def dom_emo_dict
    by (auto simp add: emo_dict_values inj_on_def)
  show ?thesis
    using bij get_labels_known [of df emo_dict] get_labels_unknown [of df emo_dict]
    by (simp add: emo_dict_values dom_emo_dict)
qed

theorem get_labels_bijection_or_key_error_witness:
  "get_labels [\<lparr>turn1 = ''a'', turn2 = ''b'', turn3 = ''c'', label = ''happy''\<rparr>,
               \<lparr>turn1 = ''d'', turn2 = ''e'', turn3 = ''f'', label = ''others''\<rparr>] emo_dict
     = Inr [3, 0]
   \<and> (\<exists>k. get_labels [\<lparr>turn1 = ''a'', turn2 = ''b'', turn3 = ''c'', label = ''happy''\<rparr>,
               \<lparr>turn1 = ''d'', turn2 = ''e'', turn3 = ''f'', label = ''joy''\<rparr>] emo_dict
     = Inl (KeyError k) \<and> k \<notin> dom emo_dict)"
proof -
  let ?ok = "[\<lparr>turn1 = ''a'', turn2 = ''b'', turn3 = ''c'', label = ''happy''\<rparr>,
              \<lparr>turn1 = ''d'', turn2 = ''e'', turn3 = ''f'', label = ''others''\<rparr>]"
  let ?bad = "[\<lparr>turn1 = ''a'', turn2 = ''b'', turn3 = ''c'', label = ''happy''\<rparr>,
               \<lparr>turn1 = ''d'', turn2 = ''e'', turn3 = ''f'', label = ''joy''\<rparr>]"
  have known: "\<forall>r\<in>set ?ok. label r \<in> dom emo_dict"
    by (simp add: dom_emo_dict)
  have unknown: "\<exists>r\<in>set ?bad. label r \<notin> dom emo_dict"
    by (simp add: dom_emo_dict)
  from get_labels_bijection_or_key_error [of ?ok] known
  have "get_labels ?ok emo_dict = Inr (map (\<lambda>r. the (emo_dict (label r))) ?ok)"
    by blast
  then have ok: "get_labels ?ok emo_dict = Inr [3, 0]"
    by (simp add: emo_dict_values)
  from get_labels_bijection_or_key_error [of ?bad] unknown
  have "\<exists>k. get_labels ?bad emo_dict = Inl (KeyError k) \<and> k \<notin> dom emo_dict"
    by blast
  with ok show ?thesis by blast
qed

section \<open>Properties of \<open>transform_data\<close>\<close>

lemma torch_tensor_uniform:
  assumes ne: "rows \<noteq> []"
    and rows: "\<And>r. r \<in> set rows \<Longrightarrow> length r = Suc k"
    and cells: "\<And>r v. r \<in> set rows \<Longrightarrow> v \<in> set r \<Longrightarrow> length v = n"
  shows "\<exists>d. torch_tensor rows = Inr \<lparr>shape = [length rows, Suc k, n], dtype = d, entries = rows\<rparr>"
proof -
  from ne obtain r rs where rr: "rows = r # rs" by (cases rows) auto
  with rows have lr: "length r = Suc k" and lrs: "list_all (\<lambda>r'. length r' = length r) rs"
    by (simp_all add: list_all_iff)
  from lr obtain v vs' where r: "r = v # vs'" by (cases r) auto
  then obtain vs where cc: "concat rows = v # vs" by (simp add: rr)
  have "\<And>x. x \<in> set (concat rows) \<Longrightarrow> length x = n" using cells by auto
  with cc have lv: "length v = n" and "\<And>x. x \<in> set vs \<Longrightarrow> length x = n" by simp_all
  then have lvs: "list_all (\<lambda>v'. length v' = length v) vs" by (simp add: list_all_iff)
  have "torch_tensor rows =
      Inr \<lparr>shape = [length rows, length r, length v],
           dtype = (if concat (concat rows) = [] then Float32 else Int64), entries = rows\<rparr>"
    using lrs lvs cc by (simp add: torch_tensor_def rr)
  then show ?thesis using lr lv by auto
qed

lemma length_pad:
  "int (length ids) \<le> m \<Longrightarrow> int (length (pad m ids)) = m"
  by (simp add: pad_def)

lemma mask_tokens:
  "0 \<notin> set xs \<Longrightarrow>
   map (\<lambda>v::int. if v \<noteq> 0 then 1 else 0) xs = replicate (length xs) (1::int)"
  by (induction xs) auto

text \<open>
  C5.  Let the frame have at least one conversation, and let the tokenizer keep to
  \<open>max_length\<close>, returning at most \<open>max_seq_len\<close> ids for every turn (so \<open>max_seq_len\<close> is not
  negative).  Then \<open>transform_data\<close> returns an id tensor and a mask tensor, both of shape
  (N, 3, max_seq_len) for the N conversations of the frame; every turn is its token ids
  followed by zeros up to \<open>max_seq_len\<close>; and at every position the mask is 0 if and only if
  the id is 0, and 1 otherwise.  When the tokenizer never emits the id 0, the mask is 1 on
  the tokens of the turn and 0 on the padding.  For the frame without conversations both
  tensors are the empty tensor of shape (0,).
\<close>

theorem transform_data_shape_and_mask:
  assumes ne: "df \<noteq> []"
    and trunc: "\<And>turn. int (length (encode turn max_seq_len)) \<le> max_seq_len"
  shows "0 \<le> max_seq_len
     \<and> (\<exists>ids mask. transform_data encode df max_seq_len = Inr (ids, mask)
          \<and> shape ids = [length df, 3, nat max_seq_len]
          \<and> shape mask = [length df, 3, nat max_seq_len]
          \<and> dtype mask = dtype ids
          \<and> entries ids = map (\<lambda>r. map (\<lambda>turn. encode turn max_seq_len @
                 replicate (nat (max_seq_len - int (length (encode turn max_seq_len)))) 0)
               [turn1 r, turn2 r, turn3 r]) df
          \<and> (\<forall>i j k. i < length df \<longrightarrow> j < 3 \<longrightarrow> k < nat max_seq_len \<longrightarrow>
               (entries mask ! i ! j ! k = 0 \<longleftrightarrow> entries ids ! i ! j ! k = 0)
               \<and> (entries mask ! i ! j ! k = 1 \<longleftrightarrow> entries ids ! i ! j ! k \<noteq> 0))
          \<and> ((\<forall>turn. 0 \<notin> set (encode turn max_seq_len)) \<longrightarrow>
               entries mask = map (\<lambda>r. map (\<lambda>turn. replicate (length (encode turn max_seq_len)) 1 @
                 replicate (nat (max_seq_len - int (length (encode turn max_seq_len)))) 0)
               [turn1 r, turn2 r, turn3 r]) df))
     \<and> transform_data encode [] max_seq_len =
          Inr (\<lparr>shape = [0], dtype = Float32, entries = []\<rparr>,
               \<lparr>shape = [0], dtype = Float32, entries = []\<rparr>)"
proof -
  let ?tok = "\<lambda>turn. encode turn max_seq_len"
  let ?rows = "map (map (pad max_seq_len))
      (map (\<lambda>r. map ?tok [turn1 r, turn2 r, turn3 r]) df)"
  let ?mask = "map (map (map (\<lambda>v::int. if v \<noteq> 0 then 1 else (0::int)))) ?rows"
  have nonneg: "0 \<le> max_seq_len"
    using trunc [of "[]"] by linarith
  have len: "int (length v) = max_seq_len" if "r \<in> set ?rows" "v \<in> set r" for r v
    using that trunc by (auto simp add: length_pad)
  then have cells: "length v = nat max_seq_len" if "r \<in> set ?rows" "v \<in> set r" for r v
    using that by fastforce
  have rows3: "length r = Suc 2" if "r \<in> set ?rows" for r
    using that by auto
  have "\<exists>d. torch_tensor ?rows =
      Inr \<lparr>shape = [length ?rows, Suc 2, nat max_seq_len], dtype = d, entries = ?rows\<rparr>"
  proof (rule torch_tensor_uniform)
    show "?rows \<noteq> []" using ne by simp
    show "length r = Suc 2" if "r \<in> set ?rows" for r using that by (rule rows3)
    show "length v = nat max_seq_len" if "r \<in> set ?rows" "v \<in> set r" for r v
      using that by (rule cells)
  qed
  then obtain d where tt: "torch_tensor ?rows =
      Inr \<lparr>shape = [length ?rows, Suc 2, nat max_seq_len], dtype = d, entries = ?rows\<rparr>"
    by blast
  define ids where "ids = \<lparr>shape = [length df, 3, nat max_seq_len], dtype = d, entries = ?rows\<rparr>"
  define mask where "mask = \<lparr>shape = [length df, 3, nat max_seq_len], dtype = d, entries = ?mask\<rparr>"
  have tt': "torch_tensor ?rows = Inr ids"
    using tt by (simp add: ids_def numeral_3_eq_3)
  have wn: "where_nonzero ids = mask"
    by (simp add: where_nonzero_def ids_def mask_def)
  have res: "transform_data encode df max_seq_len = Inr (ids, mask)"
    by (simp only: transform_data_def Let_def tt' sum.case wn)
  have e_ids: "entries ids = ?rows" and e_mask: "entries mask = ?mask"
    by (simp_all add: ids_def mask_def)
  have shapes: "shape ids = [length df, 3, nat max_seq_len]"
    "shape mask = [length df, 3, nat max_seq_len]" "dtype mask = dtype ids"
    by (simp_all add: ids_def mask_def)
  have padded: "entries ids = map (\<lambda>r. map (\<lambda>turn. ?tok turn @
                 replicate (nat (max_seq_len - int (length (?tok turn)))) 0)
               [turn1 r, turn2 r, turn3 r]) df"
    unfolding e_ids by (simp add: pad_def)
  have m: "(entries mask ! i ! j ! k = 0 \<longleftrightarrow> entries ids ! i ! j ! k = 0)
         \<and> (entries mask ! i ! j ! k = 1 \<longleftrightarrow> entries ids ! i ! j ! k \<noteq> 0)"
    if "i < length df" "j < 3" "k < nat max_seq_len" for i j k
  proof -
    from that have r: "?rows ! i \<in> set ?rows" by simp
    with that rows3 have j: "j < length (?rows ! i)" by simp
    then have v: "?rows ! i ! j \<in> set (?rows ! i)" by simp
    from len [OF r v] that have k: "k < length (?rows ! i ! j)" by simp
    from that have i: "i < length ?rows" by simp
    define x where "x = ?rows ! i ! j ! k"
    define y where "y = ?mask ! i ! j ! k"
    have "y = (if x \<noteq> 0 then 1 else 0)"
      unfolding x_def y_def using i j k by (simp only: nth_map length_map)
    then have "(y = 0 \<longleftrightarrow> x = 0) \<and> (y = 1 \<longleftrightarrow> x \<noteq> 0)" by simp
    then show ?thesis unfolding x_def y_def e_ids e_mask .
  qed
  have nz: "entries mask = map (\<lambda>r. map (\<lambda>turn. replicate (length (?tok turn)) 1 @
                 replicate (nat (max_seq_len - int (length (?tok turn)))) 0)
               [turn1 r, turn2 r, turn3 r]) df"
    if "\<forall>turn. 0 \<notin> set (?tok turn)"
    unfolding e_mask using that by (simp add: pad_def mask_tokens)
  have empty: "transform_data encode [] max_seq_len =
          Inr (\<lparr>shape = [0], dtype = Float32, entries = []\<rparr>,
               \<lparr>shape = [0], dtype = Float32, entries = []\<rparr>)"
    by (simp add: transform_data_def torch_tensor_def where_nonzero_def)
  from res shapes padded m nz
  have "\<exists>ids mask. transform_data encode df max_seq_len = Inr (ids, mask)
          \<and> shape ids = [length df, 3, nat max_seq_len]
          \<and> shape mask = [length df, 3, nat max_seq_len]
          \<and> dtype mask = dtype ids
          \<and> entries ids = map (\<lambda>r. map (\<lambda>turn. encode turn max_seq_len @
                 replicate (nat (max_seq_len - int (length (encode turn max_seq_len)))) 0)
               [turn1 r, turn2 r, turn3 r]) df
          \<and> (\<forall>i j k. i < length df \<longrightarrow> j < 3 \<longrightarrow> k < nat max_seq_len \<longrightarrow>
               (entries mask ! i ! j ! k = 0 \<longleftrightarrow> entries ids ! i ! j ! k = 0)
               \<and> (entries mask ! i ! j ! k = 1 \<longleftrightarrow> entries ids ! i ! j ! k \<noteq> 0))
          \<and> ((\<forall>turn. 0 \<notin> set (encode turn max_seq_len)) \<longrightarrow>
               entries mask = map (\<lambda>r. map (\<lambda>turn. replicate (length (encode turn max_seq_len)) 1 @
                 replicate (nat (max_seq_len - int (length (encode turn max_seq_len)))) 0)
               [turn1 r, turn2 r, turn3 r]) df)"
    by blast
  with nonneg empty show ?thesis by blast
qed

theorem transform_data_shape_and_mask_witness:
  "transform_data example_encode
      [\<lparr>turn1 = ''a'', turn2 = ''bcd'', turn3 = '''', label = ''happy''\<rparr>] 4
    = Inr (\<lparr>shape = [1, 3, 4], dtype = Int64,
             entries = [[[101, 1097, 102, 0], [101, 1098, 1099, 1100], [101, 102, 0, 0]]]\<rparr>,
           \<lparr>shape = [1, 3, 4], dtype = Int64,
             entries = [[[1, 1, 1, 0], [1, 1, 1, 1], [1, 1, 0, 0]]]\<rparr>)"
proof -
  let ?df = "[\<lparr>turn1 = ''a'', turn2 = ''bcd'', turn3 = '''', label = ''happy''\<rparr>]"
  have ne: "?df \<noteq> []" by simp
  have "int (length (example_encode turn 4)) \<le> 4" for turn
    by (simp add: example_encode_def)
  from transform_data_shape_and_mask [of ?df example_encode 4, OF ne this]
  obtain ids mask where res: "transform_data example_encode ?df 4 = Inr (ids, mask)"
    and sh: "shape ids = [length ?df, 3, nat 4]" "shape mask = [length ?df, 3, nat 4]"
    by blast
  have sh': "shape ids = [1, 3, 4]" "shape mask = [1, 3, 4]"
    using sh by simp_all
  have "transform_data example_encode ?df 4
    = Inr (\<lparr>shape = [1, 3, 4], dtype = Int64,
             entries = [[[101, 1097, 102, 0], [101, 1098, 1099, 1100], [101, 102, 0, 0]]]\<rparr>,
           \<lparr>shape = [1, 3, 4], dtype = Int64,
             entries = [[[1, 1, 1, 0], [1, 1, 1, 1], [1, 1, 0, 0]]]\<rparr>)"
    by (simp add: transform_data_def example_encode_def pad_def torch_tensor_def
        where_nonzero_def Let_def eval_nat_numeral)
  with res have
    "ids = \<lparr>shape = [1, 3, 4], dtype = Int64,
             entries = [[[101, 1097, 102, 0], [101, 1098, 1099, 1100], [101, 102, 0, 0]]]\<rparr>"
    "mask = \<lparr>shape = [1, 3, 4], dtype = Int64,
             entries = [[[1, 1, 1, 0], [1, 1, 1, 1], [1, 1, 0, 0]]]\<rparr>"
    by simp_all
  with res show ?thesis by simp
qed

theorem transform_data_shape_and_mask_counterexample:
  "transform_data example_encode [] 4 =
     Inr (\<lparr>shape = [0], dtype = Float32, entries = []\<rparr>,
          \<lparr>shape = [0], dtype = Float32, entries = []\<rparr>)
   \<and> shape \<lparr>shape = [0], dtype = Float32, entries = []\<rparr> \<noteq> [0, 3, 4]
   \<and> transform_data example_encode
        [\<lparr>turn1 = ''a'', turn2 = ''bcd'', turn3 = '''', label = ''happy''\<rparr>] (- 1) =
     Inr (\<lparr>shape = [1, 3, 0], dtype = Float32, entries = [[[], [], []]]\<rparr>,
          \<lparr>shape = [1, 3, 0], dtype = Float32, entries = [[[], [], []]]\<rparr>)"
  by (simp add: transform_data_def example_encode_def pad_def torch_tensor_def
      where_nonzero_def Let_def numeral_3_eq_3)

section \<open>Properties of the context classifier\<close>

lemma column_first:
  "list_all (\<lambda>row. length row = 4) logits \<Longrightarrow> column logits 0 = Inr (map (\<lambda>row. row ! 0) logits)"
  by (induction logits) (simp_all add: norm_index_def)

lemma init_others_label_emo_dict: "init_others_label emo_dict = Inr 0"
  by (simp add: init_others_label_def emo_dict_def)

lemma length_embed_turns: "length (embed_turns m b ts) = length ts"
  by (simp add: embed_turns_def)

lemma nth_embed_turns:
  "t < length ts \<Longrightarrow>
   embed_turns m b ts ! t =
     drop_layer m b t (norm_layer m (vadd (projection m (ts ! t)) (position_embeds m ! t)))"
  by (simp add: embed_turns_def nth_enumerate_eq)

lemma head_input_ok:
  assumes "list_all (\<lambda>turns. length turns = 3) embeds"
  shows "head_input m embeds =
     Inr (map (\<lambda>(b, turns). rev (embed_turns m b turns)) (enumerate 0 embeds))"
  using assms by (simp add: head_input_def flip1_def case_prod_unfold)

lemma nth_head_input:
  assumes three: "list_all (\<lambda>turns. length turns = 3) embeds"
    and b: "b < length embeds" and j: "j < 3"
  shows "map (\<lambda>(b, turns). rev (embed_turns m b turns)) (enumerate 0 embeds) ! b ! j =
     drop_layer m b (2 - j)
       (norm_layer m (vadd (projection m (embeds ! b ! (2 - j))) (position_embeds m ! (2 - j))))"
proof -
  from three b have len: "length (embeds ! b) = 3"
    by (simp add: list_all_length)
  have "map (\<lambda>(b, turns). rev (embed_turns m b turns)) (enumerate 0 embeds) ! b =
      rev (embed_turns m b (embeds ! b))"
    using b by (simp add: nth_enumerate_eq)
  moreover have "rev (embed_turns m b (embeds ! b)) ! j = embed_turns m b (embeds ! b) ! (2 - j)"
    using j len by (simp add: rev_nth length_embed_turns)
  moreover have "2 - j < length (embeds ! b)" using len by simp
  ultimately show ?thesis by (simp add: nth_embed_turns)
qed

text \<open>
  C4.  For a batch of conversations of three turns, the sequence passed to the head has,
  at position \<open>j\<close> of conversation \<open>b\<close>, the turn of original index \<open>2 - j\<close>: its
  projection plus the positional embedding of index \<open>2 - j\<close>, normalised and dropped out.
  The positional embedding of index \<open>i\<close> is thus added to the turn at original position
  \<open>i\<close>, the order of the turns is reversed, and the third turn stands at position 0.  The
  logits that \<open>forward\<close> returns, with or without labels, are those of this sequence.
\<close>

theorem forward_reverses_turns:
  assumes three: "list_all (\<lambda>turns. length turns = 3) embeds"
    and b: "b < length embeds" and j: "j < 3"
  shows "\<exists>x. head_input m embeds = Inr x
     \<and> context_classifier_forward m embeds None = Inr (Logits (context_transformer m x))
     \<and> (\<forall>ls r. context_classifier_forward m embeds (Some ls) = Inr r \<longrightarrow>
          (\<exists>loss. r = LossLogits loss (context_transformer m x)))
     \<and> length x = length embeds \<and> length (x ! b) = 3
     \<and> x ! b ! j =
         drop_layer m b (2 - j)
           (norm_layer m (vadd (projection m (embeds ! b ! (2 - j))) (position_embeds m ! (2 - j))))
     \<and> x ! b ! 0 =
         drop_layer m b 2
           (norm_layer m (vadd (projection m (embeds ! b ! 2)) (position_embeds m ! 2)))"
proof -
  let ?x = "map (\<lambda>(b, turns). rev (embed_turns m b turns)) (enumerate 0 embeds)"
  have hi: "head_input m embeds = Inr ?x" using three by (rule head_input_ok)
  have none: "context_classifier_forward m embeds None = Inr (Logits (context_transformer m ?x))"
    by (simp add: context_classifier_forward_def hi)
  have some: "\<exists>loss. r = LossLogits loss (context_transformer m ?x)"
    if "context_classifier_forward m embeds (Some ls) = Inr r" for ls r
    using that by (auto simp add: context_classifier_forward_def hi Let_def split: sum.splits)
  from three b have len: "length (embeds ! b) = 3"
    by (simp add: list_all_length)
  have lb: "length (?x ! b) = 3"
    using b len by (simp add: nth_enumerate_eq length_embed_turns)
  have nj: "?x ! b ! j = drop_layer m b (2 - j)
           (norm_layer m (vadd (projection m (embeds ! b ! (2 - j))) (position_embeds m ! (2 - j))))"
    using three b j by (rule nth_head_input)
  have n0: "?x ! b ! 0 = drop_layer m b 2
           (norm_layer m (vadd (projection m (embeds ! b ! 2)) (position_embeds m ! 2)))"
    using nth_head_input [OF three b, of 0 m] by simp
  have "length ?x = length embeds" by simp
  with hi none some lb nj n0 show ?thesis by blast
qed

text \<open>
  C3.  For a module built with the dictionary of the training module, the index of
  \<open>others\<close> is 0.  Without labels \<open>forward\<close> returns the logits alone.  With labels it
  returns the pair of the total loss and the same logits, where the total loss is the sum
  of the loss of the head (the cross-entropy over the four classes) and of the binary loss,
  which is \<open>bin_loss_fct\<close> of the logits at index 0 against the targets that are 1 where
  the label is 0 and 0 elsewhere.
\<close>

theorem forward_loss_sum:
  assumes others: "init_others_label emo_dict = Inr (others_label m)"
    and three: "list_all (\<lambda>turns. length turns = 3) embeds"
    and four: "\<And>x. list_all (\<lambda>row. length row = 4) (context_transformer m x)"
  shows "others_label m = 0
     \<and> (\<exists>logits. context_classifier_forward m embeds None = Inr (Logits logits)
          \<and> context_classifier_forward m embeds (Some labels) =
              Inr (LossLogits
                (fadd (head_loss m logits labels)
                  (bin_loss_fct m (map (\<lambda>row. row ! 0) logits)
                     (map (\<lambda>l. if l = 0 then 1 else 0) labels)))
                logits))"
proof -
  from others have o: "others_label m = 0"
    by (simp add: init_others_label_emo_dict)
  let ?x = "map (\<lambda>(b, turns). rev (embed_turns m b turns)) (enumerate 0 embeds)"
  let ?lg = "context_transformer m ?x"
  have hi: "head_input m embeds = Inr ?x" using three by (rule head_input_ok)
  have col: "column ?lg 0 = Inr (map (\<lambda>row. row ! 0) ?lg)"
    using four by (rule column_first)
  have bl: "bin_loss m ?lg labels =
      Inr (bin_loss_fct m (map (\<lambda>row. row ! 0) ?lg) (map (\<lambda>l. if l = 0 then 1 else 0) labels))"
    by (simp add: bin_loss_def o col)
  have "context_classifier_forward m embeds None = Inr (Logits ?lg)"
    by (simp add: context_classifier_forward_def hi)
  moreover have "context_classifier_forward m embeds (Some labels) =
      Inr (LossLogits (fadd (head_loss m ?lg labels)
            (bin_loss_fct m (map (\<lambda>row. row ! 0) ?lg) (map (\<lambda>l. if l = 0 then 1 else 0) labels)))
          ?lg)"
    by (simp add: context_classifier_forward_def hi bl Let_def)
  ultimately show ?thesis using o by blast
qed

lemma example_model_four: "list_all (\<lambda>row. length row = 4) (context_transformer example_model x)"
  by (simp add: example_model_def list_all_iff)


theorem forward_reverses_turns_witness:
  "\<exists>x. head_input example_model [[[1, 0], [2, 0], [3, 0]]] = Inr x
     \<and> x ! 0 ! 0 = [106, 100] \<and> x ! 0 ! 1 = [14, 10] \<and> x ! 0 ! 2 = [3, 1]
     \<and> context_classifier_forward example_model [[[1, 0], [2, 0], [3, 0]]] None
         = Inr (Logits (context_transformer example_model x))"
proof -
  let ?e = "[[[1, 0], [2, 0], [3, 0 :: real]]]"
  have three: "list_all (\<lambda>turns. length turns = 3) ?e" by simp
  from forward_reverses_turns [of ?e 0 0 example_model, OF three]
  obtain x where x: "head_input example_model ?e = Inr x"
    and fw: "context_classifier_forward example_model ?e None
         = Inr (Logits (context_transformer example_model x))"
    and x0: "x ! 0 ! 0 = drop_layer example_model 0 2 (norm_layer example_model
        (vadd (projection example_model (?e ! 0 ! 2)) (position_embeds example_model ! 2)))"
    by auto
  from forward_reverses_turns [of ?e 0 1 example_model, OF three] x
  have x1: "x ! 0 ! 1 = drop_layer example_model 0 1 (norm_layer example_model
        (vadd (projection example_model (?e ! 0 ! 1)) (position_embeds example_model ! 1)))"
    by auto
  from forward_reverses_turns [of ?e 0 2 example_model, OF three] x
  have x2: "x ! 0 ! 2 = drop_layer example_model 0 0 (norm_layer example_model
        (vadd (projection example_model (?e ! 0 ! 0)) (position_embeds example_model ! 0)))"
    by auto
  have "x ! 0 ! 0 = [106, 100]" "x ! 0 ! 1 = [14, 10]" "x ! 0 ! 2 = [3, 1]"
    using x0 x1 x2 by (simp_all add: example_model_def vadd_def)
  with x fw show ?thesis by blast
qed

theorem forward_loss_sum_witness:
  "context_classifier_forward example_model [[[1, 0], [2, 0], [3, 0]]] None
     = Inr (Logits [[106, 14, 3, 0]])
   \<and> context_classifier_forward example_model [[[1, 0], [2, 0], [3, 0]]] (Some [0])
     = Inr (LossLogits (Fin 107) [[106, 14, 3, 0]])
   \<and> context_classifier_forward example_model [[[1, 0], [2, 0], [3, 0]]] (Some [2])
     = Inr (LossLogits (Fin 1) [[106, 14, 3, 0]])"
proof -
  let ?e = "[[[1, 0], [2, 0], [3, 0 :: real]]]"
  have three: "list_all (\<lambda>turns. length turns = 3) ?e" by simp
  have others: "init_others_label emo_dict = Inr (others_label example_model)"
    by (simp add: init_others_label_def emo_dict_def example_model_def)
  have lg: "context_classifier_forward example_model ?e None = Inr (Logits [[106, 14, 3, 0]])"
    by (simp add: context_classifier_forward_def head_input_def flip1_def embed_turns_def
        example_model_def vadd_def)
  from forward_loss_sum [of example_model ?e "[0]", OF others three example_model_four] lg
  have a: "context_classifier_forward example_model ?e (Some [0]) =
      Inr (LossLogits (fadd (head_loss example_model [[106, 14, 3, 0]] [0])
        (bin_loss_fct example_model (map (\<lambda>row. row ! 0) [[106, 14, 3, 0]])
           (map (\<lambda>l. if l = 0 then 1 else 0) [0 :: int]))) [[106, 14, 3, 0]])"
    by auto
  from forward_loss_sum [of example_model ?e "[2]", OF others three example_model_four] lg
  have b: "context_classifier_forward example_model ?e (Some [2]) =
      Inr (LossLogits (fadd (head_loss example_model [[106, 14, 3, 0]] [2])
        (bin_loss_fct example_model (map (\<lambda>row. row ! 0) [[106, 14, 3, 0]])
           (map (\<lambda>l. if l = 0 then 1 else 0) [2 :: int]))) [[106, 14, 3, 0]])"
    by auto
  from a b lg show ?thesis by (simp add: example_model_def)
qed

section \<open>Properties of \<open>EmotionModel.forward\<close>\<close>

lemma encoder_records_grad_eq:
  "encoder_records_grad hp e g \<longleftrightarrow> frozen_epochs hp \<le> e \<and> g"
  by (auto simp add: encoder_records_grad_def EmotionModel_forward_def)

text \<open>
  C8.  In an epoch before \<open>frozen_epochs\<close> the encoder runs with gradient recording
  switched off, whatever the mode of the caller.  From epoch \<open>frozen_epochs\<close> on
  \<open>forward\<close> leaves the mode alone: the encoder records gradients exactly in the calls
  made with recording on, as the training steps are, and records nothing in a call made
  with recording off, as those of the validation and test steps under the trainer's
  evaluation loop are.  Among the calls made with recording on, the phase depends on the
  epoch alone and is monotone in it: along epochs that never go down, once such a call
  records gradients, so does every later one, so the model passes from frozen to unfrozen
  at most once and never back.
\<close>

theorem forward_frozen_phase:
  "(current_epoch < frozen_epochs hp \<longrightarrow>
      EmotionModel_forward sem ccm hp current_epoch g x a l = ccm (sem False x a) l
      \<and> \<not> encoder_records_grad hp current_epoch g)
   \<and> (frozen_epochs hp \<le> current_epoch \<longrightarrow>
      EmotionModel_forward sem ccm hp current_epoch g x a l = ccm (sem g x a) l
      \<and> encoder_records_grad hp current_epoch g = g
      \<and> encoder_records_grad hp current_epoch True)
   \<and> \<not> encoder_records_grad hp current_epoch False
   \<and> (current_epoch \<le> later_epoch \<longrightarrow> encoder_records_grad hp current_epoch True \<longrightarrow>
      encoder_records_grad hp later_epoch True)
   \<and> (sorted es \<longrightarrow> i \<le> j \<longrightarrow> j < length es \<longrightarrow>
      encoder_records_grad hp (es ! i) True \<longrightarrow> encoder_records_grad hp (es ! j) True)"
proof -
  have "es ! i \<le> es ! j" if "sorted es" "i \<le> j" "j < length es"
    using that by (simp add: sorted_nth_mono)
  then show ?thesis
    by (auto simp add: encoder_records_grad_eq EmotionModel_forward_def)
qed

theorem forward_frozen_phase_witness:
  "\<not> encoder_records_grad \<lparr>frozen_epochs = 2\<rparr> 1 True
   \<and> encoder_records_grad \<lparr>frozen_epochs = 2\<rparr> 2 True
   \<and> encoder_records_grad \<lparr>frozen_epochs = 2\<rparr> 4 True
   \<and> \<not> encoder_records_grad \<lparr>frozen_epochs = 2\<rparr> 3 False"
  using forward_frozen_phase [where current_epoch = 1 and hp = "\<lparr>frozen_epochs = 2\<rparr>"
      and g = True and later_epoch = 1 and es = "[]" and i = 0 and j = 0
      and sem = "\<lambda>g (i::unit) (a::unit). g" and ccm = "\<lambda>e (l::unit option). e"
      and x = "()" and a = "()" and l = None]
    forward_frozen_phase [where current_epoch = 2 and hp = "\<lparr>frozen_epochs = 2\<rparr>"
      and g = True and later_epoch = 4 and es = "[0, 1, 2, 3, 4]" and i = 2 and j = 4
      and sem = "\<lambda>g (i::unit) (a::unit). g" and ccm = "\<lambda>e (l::unit option). e"
      and x = "()" and a = "()" and l = None]
    forward_frozen_phase [where current_epoch = 3 and hp = "\<lparr>frozen_epochs = 2\<rparr>"
      and g = False and later_epoch = 3 and es = "[]" and i = 0 and j = 0
      and sem = "\<lambda>g (i::unit) (a::unit). g" and ccm = "\<lambda>e (l::unit option). e"
      and x = "()" and a = "()" and l = None]
  by simp

theorem forward_frozen_phase_counterexample:
  "frozen_epochs \<lparr>frozen_epochs = 2\<rparr> \<le> 3
   \<and> \<not> encoder_records_grad \<lparr>frozen_epochs = 2\<rparr> 3 False
   \<and> [encoder_records_grad \<lparr>frozen_epochs = 2\<rparr> 1 True,
       encoder_records_grad \<lparr>frozen_epochs = 2\<rparr> 1 False,
       encoder_records_grad \<lparr>frozen_epochs = 2\<rparr> 2 True,
       encoder_records_grad \<lparr>frozen_epochs = 2\<rparr> 2 False,
       encoder_records_grad \<lparr>frozen_epochs = 2\<rparr> 3 True]
      = [False, False, True, False, True]"
  by (simp add: encoder_records_grad_def EmotionModel_forward_def)

end
